theory Spec2Isabelle
  imports Main "HOL-Library.Sublist"
begin

section \<open>Values, objects and the store\<close>

text \<open>
  The library works on JavaScript values and mutates objects in place, and several of its
  effects depend on two places holding the very same object. Objects and arrays therefore live
  in a store of cells, addressed by their index; a value is a scalar, an \<open>Error\<close> object or
  the address of a cell. A \<open>json\<close> tree is a value written out in full: the text of a file
  or of a document, with the members of an object in the order of the text, or a printed
  result.
\<close>

datatype error =
    SelfReference
  | GraphCycle string string
  | CircularRefs "string list"
  | MissingRef string
  | SerializeError

datatype json =
    JNull
  | JBool bool
  | JNum int
  | JStr string
  | JErr error
  | JArr "json list"
  | JObj "(string \<times> json) list"

datatype val = VNull | VBool bool | VNum int | VStr string | VErr error | VRef nat

datatype cell = CObj "(string \<times> val) list" | CArr "val list"

type_synonym heap = "cell list"

datatype key = KProp string | KIdx nat

definition cell_at :: "heap \<Rightarrow> nat \<Rightarrow> cell option" where
  "cell_at h a = (if a < length h then Some (h ! a) else None)"

text \<open>JavaScript truthiness, as tested by \<open>if (loaderValue)\<close> and \<open>if (cache[p])\<close>.\<close>

fun truthy :: "val \<Rightarrow> bool" where
  "truthy VNull = False"
| "truthy (VBool b) = b"
| "truthy (VNum n) = (n \<noteq> 0)"
| "truthy (VStr s) = (s \<noteq> [])"
| "truthy (VErr e) = True"
| "truthy (VRef a) = True"

subsection \<open>Decimal rendering of array indices\<close>

definition digit_char :: "nat \<Rightarrow> char" where
  "digit_char d = char_of (48 + d)"

fun dec_fuel :: "nat \<Rightarrow> nat \<Rightarrow> string" where
  "dec_fuel 0 n = []"
| "dec_fuel (Suc f) n =
     (if n < 10 then [digit_char n] else dec_fuel f (n div 10) @ [digit_char (n mod 10)])"

definition show_nat :: "nat \<Rightarrow> string" where
  "show_nat n = dec_fuel (Suc n) n"

definition is_digit :: "char \<Rightarrow> bool" where
  "is_digit c = (48 \<le> (of_char c :: nat) \<and> (of_char c :: nat) \<le> 57)"

definition parse_nat :: "string \<Rightarrow> nat" where
  "parse_nat s = foldl (\<lambda>n c. 10 * n + ((of_char c :: nat) - 48)) 0 s"

text \<open>
  A property name that is an array index: the decimal numeral, written without leading zeros,
  of a number below \<open>2^32 - 1\<close>. JavaScript enumerates such names before all others.
\<close>

fun digits_less :: "string \<Rightarrow> string \<Rightarrow> bool" where
  "digits_less (c # cs) (d # ds) =
     ((of_char c :: nat) < of_char d \<or> (c = d \<and> digits_less cs ds))"
| "digits_less cs ds = False"

definition below_index_limit :: "string \<Rightarrow> bool" where
  "below_index_limit s =
     (length s < 10 \<or> (length s = 10 \<and> digits_less s ''4294967295''))"

definition index_key :: "string \<Rightarrow> nat option" where
  "index_key s =
     (if s \<noteq> [] \<and> list_all is_digit s \<and> (s = ''0'' \<or> hd s \<noteq> CHR ''0'') \<and> below_index_limit s
      then Some (parse_nat s) else None)"

subsection \<open>Property lists in enumeration order\<close>

text \<open>
  The properties of an object are kept in the order in which \<open>Object.keys\<close>, \<open>for-in\<close> and
  \<open>JSON.stringify\<close> enumerate them: the array indices in ascending order, then the other
  names in the order of their creation.
\<close>

fun lookup :: "('k \<times> 'v) list \<Rightarrow> 'k \<Rightarrow> 'v option" where
  "lookup [] k = None"
| "lookup ((k', v) # kvs) k = (if k' = k then Some v else lookup kvs k)"

fun replace_key :: "(string \<times> 'v) list \<Rightarrow> string \<Rightarrow> 'v \<Rightarrow> (string \<times> 'v) list" where
  "replace_key [] k v = []"
| "replace_key ((k', v') # kvs) k v =
     (if k' = k then (k, v) # kvs else (k', v') # replace_key kvs k v)"

text \<open>A new property whose name is the index \<open>i\<close> goes before the first name that is no index or a larger one.\<close>

fun insert_index :: "nat \<Rightarrow> string \<Rightarrow> 'v \<Rightarrow> (string \<times> 'v) list \<Rightarrow> (string \<times> 'v) list" where
  "insert_index i k v [] = [(k, v)]"
| "insert_index i k v ((k', v') # kvs) =
     (case index_key k' of
        None \<Rightarrow> (k, v) # (k', v') # kvs
      | Some j \<Rightarrow> if i < j then (k, v) # (k', v') # kvs else (k', v') # insert_index i k v kvs)"

text \<open>Assignment \<open>o[k] = v\<close>: an existing property keeps its position, a new one is created.\<close>

definition assign :: "(string \<times> 'v) list \<Rightarrow> string \<Rightarrow> 'v \<Rightarrow> (string \<times> 'v) list" where
  "assign kvs k v =
     (if lookup kvs k \<noteq> None then replace_key kvs k v
      else (case index_key k of
              None \<Rightarrow> kvs @ [(k, v)]
            | Some i \<Rightarrow> insert_index i k v kvs))"

text \<open>The properties of an object created from a text with these members in this order.\<close>

definition properties :: "(string \<times> 'v) list \<Rightarrow> (string \<times> 'v) list" where
  "properties kvs = foldl (\<lambda>acc kv. assign acc (fst kv) (snd kv)) [] kvs"

fun remove_key :: "('k \<times> 'v) list \<Rightarrow> 'k \<Rightarrow> ('k \<times> 'v) list" where
  "remove_key [] k = []"
| "remove_key ((k', v') # kvs) k = (if k' = k then kvs else (k', v') # remove_key kvs k)"

fun key_str :: "key \<Rightarrow> string" where
  "key_str (KProp s) = s"
| "key_str (KIdx i) = show_nat i"

text \<open>\<open>path.join('/')\<close> of a traversal path.\<close>

fun join_path :: "key list \<Rightarrow> string" where
  "join_path [] = []"
| "join_path [k] = key_str k"
| "join_path (k # ks) = key_str k @ ''/'' @ join_path ks"

subsection \<open>Reading and writing cells\<close>

text \<open>\<open>value[key]\<close> for a traversal key; \<open>None\<close> is \<open>undefined\<close>.\<close>

fun get_key :: "heap \<Rightarrow> nat \<Rightarrow> key \<Rightarrow> val option" where
  "get_key h a k =
     (case cell_at h a of
        None \<Rightarrow> None
      | Some (CObj kvs) \<Rightarrow> lookup kvs (key_str k)
      | Some (CArr vs) \<Rightarrow>
          (case k of KIdx i \<Rightarrow> (if i < length vs then Some (vs ! i) else None)
                   | KProp s \<Rightarrow> None))"

text \<open>\<open>parent[key] = value\<close>, the assignment behind \<open>this.update\<close>.\<close>

fun set_key :: "heap \<Rightarrow> nat \<Rightarrow> key \<Rightarrow> val \<Rightarrow> heap" where
  "set_key h a k v =
     (case cell_at h a of
        None \<Rightarrow> h
      | Some (CObj kvs) \<Rightarrow> h[a := CObj (assign kvs (key_str k) v)]
      | Some (CArr vs) \<Rightarrow>
          (case k of KIdx i \<Rightarrow> (if i < length vs then h[a := CArr (vs[i := v])] else h)
                   | KProp s \<Rightarrow> h))"

text \<open>The snapshot of keys taken by the walkers before they iterate.\<close>

fun keys_of :: "cell \<Rightarrow> key list" where
  "keys_of (CObj kvs) = map (\<lambda>kv. KProp (fst kv)) kvs"
| "keys_of (CArr vs) = map KIdx [0..<length vs]"

subsection \<open>Building cells from a tree, and reading a tree back\<close>

text \<open>
  A tree stands for a value of the program when the members of each of its objects are in
  enumeration order. \<open>enumerated\<close> is the value that a text with the members in the order
  of the tree denotes: each object has its properties created in that order.
\<close>

fun enumerated :: "json \<Rightarrow> json"
  and enumerated_fields :: "(string \<times> json) list \<Rightarrow> (string \<times> json) list"
  and enumerated_items :: "json list \<Rightarrow> json list" where
  "enumerated (JObj fs) = JObj (properties (enumerated_fields fs))"
| "enumerated (JArr js) = JArr (enumerated_items js)"
| "enumerated JNull = JNull"
| "enumerated (JBool b) = JBool b"
| "enumerated (JNum n) = JNum n"
| "enumerated (JStr s) = JStr s"
| "enumerated (JErr e) = JErr e"
| "enumerated_fields [] = []"
| "enumerated_fields (f # fs) = (fst f, enumerated (snd f)) # enumerated_fields fs"
| "enumerated_items [] = []"
| "enumerated_items (j # js) = enumerated j # enumerated_items js"

text \<open>The cells of a value, one new cell for each object and array of its tree.\<close>

fun alloc :: "json \<Rightarrow> heap \<Rightarrow> val \<times> heap"
  and alloc_fields :: "(string \<times> json) list \<Rightarrow> heap \<Rightarrow> (string \<times> val) list \<times> heap"
  and alloc_items :: "json list \<Rightarrow> heap \<Rightarrow> val list \<times> heap" where
  "alloc JNull h = (VNull, h)"
| "alloc (JBool b) h = (VBool b, h)"
| "alloc (JNum n) h = (VNum n, h)"
| "alloc (JStr s) h = (VStr s, h)"
| "alloc (JErr e) h = (VErr e, h)"
| "alloc (JArr js) h = (case alloc_items js h of (vs, h') \<Rightarrow> (VRef (length h'), h' @ [CArr vs]))"
| "alloc (JObj fs) h =
     (case alloc_fields fs h of (kvs, h') \<Rightarrow> (VRef (length h'), h' @ [CObj kvs]))"
| "alloc_fields [] h = ([], h)"
| "alloc_fields (f # fs) h =
     (case alloc (snd f) h of (v, h') \<Rightarrow>
        (case alloc_fields fs h' of (kvs, h'') \<Rightarrow> ((fst f, v) # kvs, h'')))"
| "alloc_items [] h = ([], h)"
| "alloc_items (j # js) h =
     (case alloc j h of (v, h') \<Rightarrow>
        (case alloc_items js h' of (vs, h'') \<Rightarrow> (v # vs, h'')))"

text \<open>
  Reading a value back as a tree. The depth is bounded: a walk deeper than the bound has met
  a cell twice on one path, which for \<open>JSON.stringify\<close> is the circular structure it throws on.
\<close>

fun reify :: "nat \<Rightarrow> heap \<Rightarrow> val \<Rightarrow> json option"
  and reify_fields :: "nat \<Rightarrow> heap \<Rightarrow> (string \<times> val) list \<Rightarrow> (string \<times> json) list option"
  and reify_items :: "nat \<Rightarrow> heap \<Rightarrow> val list \<Rightarrow> json list option" where
  "reify n h VNull = Some JNull"
| "reify n h (VBool b) = Some (JBool b)"
| "reify n h (VNum i) = Some (JNum i)"
| "reify n h (VStr s) = Some (JStr s)"
| "reify n h (VErr e) = Some (JErr e)"
| "reify 0 h (VRef a) = None"
| "reify (Suc n) h (VRef a) =
     (case cell_at h a of
        None \<Rightarrow> None
      | Some (CObj kvs) \<Rightarrow> map_option JObj (reify_fields n h kvs)
      | Some (CArr vs) \<Rightarrow> map_option JArr (reify_items n h vs))"
| "reify_fields n h [] = Some []"
| "reify_fields n h (kv # kvs) =
     (case reify n h (snd kv) of
        None \<Rightarrow> None
      | Some j \<Rightarrow> map_option (\<lambda>r. (fst kv, j) # r) (reify_fields n h kvs))"
| "reify_items n h [] = Some []"
| "reify_items n h (v # vs) =
     (case reify n h v of
        None \<Rightarrow> None
      | Some j \<Rightarrow> map_option (\<lambda>r. j # r) (reify_items n h vs))"

definition stringify :: "heap \<Rightarrow> val \<Rightarrow> json option" where
  "stringify h v = reify (Suc (length h)) h v"


subsection \<open>structuredClone\<close>

text \<open>
  \<open>structuredClone\<close> copies every cell reachable from its argument into new cells and keeps
  sharing: a cell met again is mapped to the copy already made (the memo table). The new cell
  is reserved before its children are copied. The first argument bounds the depth.
\<close>

fun clone :: "nat \<Rightarrow> heap \<Rightarrow> (nat \<times> nat) list \<Rightarrow> val \<Rightarrow> (val \<times> heap \<times> (nat \<times> nat) list) option"
  and clone_fields :: "nat \<Rightarrow> heap \<Rightarrow> (nat \<times> nat) list \<Rightarrow> (string \<times> val) list
        \<Rightarrow> ((string \<times> val) list \<times> heap \<times> (nat \<times> nat) list) option"
  and clone_items :: "nat \<Rightarrow> heap \<Rightarrow> (nat \<times> nat) list \<Rightarrow> val list
        \<Rightarrow> (val list \<times> heap \<times> (nat \<times> nat) list) option" where
  "clone n h m VNull = Some (VNull, h, m)"
| "clone n h m (VBool b) = Some (VBool b, h, m)"
| "clone n h m (VNum i) = Some (VNum i, h, m)"
| "clone n h m (VStr s) = Some (VStr s, h, m)"
| "clone n h m (VErr e) = Some (VErr e, h, m)"
| "clone 0 h m (VRef a) = None"
| "clone (Suc n) h m (VRef a) =
     (case lookup m a of
        Some a' \<Rightarrow> Some (VRef a', h, m)
      | None \<Rightarrow>
          (case cell_at h a of
             None \<Rightarrow> None
           | Some (CObj kvs) \<Rightarrow>
               (let a' = length h in
                case clone_fields n (h @ [CObj []]) ((a, a') # m) kvs of
                  None \<Rightarrow> None
                | Some (kvs', h', m') \<Rightarrow> Some (VRef a', h'[a' := CObj kvs'], m'))
           | Some (CArr vs) \<Rightarrow>
               (let a' = length h in
                case clone_items n (h @ [CArr []]) ((a, a') # m) vs of
                  None \<Rightarrow> None
                | Some (vs', h', m') \<Rightarrow> Some (VRef a', h'[a' := CArr vs'], m'))))"
| "clone_fields n h m [] = Some ([], h, m)"
| "clone_fields n h m (kv # kvs) =
     (case clone n h m (snd kv) of
        None \<Rightarrow> None
      | Some (v, h', m') \<Rightarrow>
          (case clone_fields n h' m' kvs of
             None \<Rightarrow> None
           | Some (r, h'', m'') \<Rightarrow> Some ((fst kv, v) # r, h'', m'')))"
| "clone_items n h m [] = Some ([], h, m)"
| "clone_items n h m (v # vs) =
     (case clone n h m v of
        None \<Rightarrow> None
      | Some (v', h', m') \<Rightarrow>
          (case clone_items n h' m' vs of
             None \<Rightarrow> None
           | Some (r, h'', m'') \<Rightarrow> Some (v' # r, h'', m'')))"

definition structuredClone :: "heap \<Rightarrow> val \<Rightarrow> (val \<times> heap) option" where
  "structuredClone h v =
     (case clone (Suc (length h)) h [] v of
        None \<Rightarrow> None
      | Some (v', h', m) \<Rightarrow> Some (v', h'))"

section \<open>Strings\<close>

text \<open>
  \<open>String.prototype.toLowerCase\<close> belongs to the language and is a parameter of the
  environment below. On a string of ASCII characters it maps \<open>A\<close> to \<open>Z\<close> to \<open>a\<close> to \<open>z\<close> and
  leaves every other character, which is what \<open>ascii_toLowerCase\<close> does.
\<close>

definition lower_char :: "char \<Rightarrow> char" where
  "lower_char c =
     (let n = (of_char c :: nat) in if 65 \<le> n \<and> n \<le> 90 then char_of (n + 32) else c)"

definition ascii_toLowerCase :: "string \<Rightarrow> string" where
  "ascii_toLowerCase s = map lower_char s"


fun startsWith :: "string \<Rightarrow> string \<Rightarrow> bool" where
  "startsWith s [] = True"
| "startsWith [] (p # ps) = False"
| "startsWith (c # cs) (p # ps) = (c = p \<and> startsWith cs ps)"

definition substring2 :: "string \<Rightarrow> string" where
  "substring2 s = drop 2 s"

text \<open>\<open>s.split(c)\<close>: the pieces between the separators, empty pieces included.\<close>

fun split_on :: "char \<Rightarrow> string \<Rightarrow> string list" where
  "split_on c [] = [[]]"
| "split_on c (x # xs) =
     (if x = c then [] # split_on c xs
      else (case split_on c xs of [] \<Rightarrow> [[x]] | p # ps \<Rightarrow> (x # p) # ps))"

definition has_hash :: "string \<Rightarrow> bool" where
  "has_hash s = (CHR ''#'' \<in> set s)"

text \<open>\<open>refVal.split('#')[1]\<close>, used only when \<open>refVal\<close> contains a \<open>#\<close>.\<close>

definition after_hash :: "string \<Rightarrow> string" where
  "after_hash s = (case split_on CHR ''#'' s of a # b # rest \<Rightarrow> b | _ \<Rightarrow> [])"

section \<open>The helpers of \<open>utils\<close>\<close>

datatype reftype = Local | File

text \<open>
  Modelled from the spec: \<open>utils.getRefValue\<close>, missing from the sources. The spec's classifier
  takes a mapping with a string \<open>$ref\<close> field; the destination is that string.
\<close>

definition ref_string :: "heap \<Rightarrow> val \<Rightarrow> string option" where
  "ref_string h node =
     (case node of
        VRef a \<Rightarrow>
          (case cell_at h a of
             Some (CObj kvs) \<Rightarrow>
               (case lookup kvs ''$ref'' of Some (VStr s) \<Rightarrow> Some s | _ \<Rightarrow> None)
           | _ \<Rightarrow> None)
      | _ \<Rightarrow> None)"

text \<open>
  Modelled from the spec: \<open>utils.getRefType\<close>, missing from the sources. A reference is local
  if its value begins with \<open>#\<close>, and a file reference otherwise.
\<close>

definition getRefType :: "string \<Rightarrow> reftype" where
  "getRefType s = (case s of [] \<Rightarrow> File | c # cs \<Rightarrow> if c = CHR ''#'' then Local else File)"

text \<open>
  Modelled from the spec: \<open>utils.getRefFilePath\<close>, missing from the sources. Everything before
  an optional \<open>#\<close> is the location.
\<close>

definition getRefFilePath :: "string \<Rightarrow> string" where
  "getRefFilePath s = takeWhile (\<lambda>c. c \<noteq> CHR ''#'') s"

text \<open>An array index written in decimal, as a pointer segment.\<close>

definition seg_index :: "string \<Rightarrow> nat \<Rightarrow> nat option" where
  "seg_index seg len = (case filter (\<lambda>i. show_nat i = seg) [0..<len] of [] \<Rightarrow> None | i # r \<Rightarrow> Some i)"

fun step_seg :: "heap \<Rightarrow> val \<Rightarrow> string \<Rightarrow> val option" where
  "step_seg h (VRef a) seg =
     (case cell_at h a of
        None \<Rightarrow> None
      | Some (CObj kvs) \<Rightarrow> lookup kvs seg
      | Some (CArr vs) \<Rightarrow> (case seg_index seg (length vs) of None \<Rightarrow> None | Some i \<Rightarrow> Some (vs ! i)))"
| "step_seg h v seg = None"

fun walk_segs :: "heap \<Rightarrow> val \<Rightarrow> string list \<Rightarrow> val option" where
  "walk_segs h v [] = Some v"
| "walk_segs h v (seg # segs) =
     (case step_seg h v seg of None \<Rightarrow> None | Some v' \<Rightarrow> walk_segs h v' segs)"

text \<open>
  Modelled from the spec: \<open>utils.getRefPathValue\<close>, missing from the sources. What follows the
  \<open>#\<close> is a pointer path with segments separated by \<open>/\<close>; the root is walked by successive
  key or index lookups; the result is the node found or nothing. A pointer of exactly \<open>#\<close> is
  the whole document. Empty segments (the one before the leading \<open>/\<close>) are skipped.
\<close>

definition pointer_segs :: "string \<Rightarrow> string list" where
  "pointer_segs p =
     filter (\<lambda>s. s \<noteq> []) (split_on CHR ''/'' (if has_hash p then after_hash p else p))"

definition getRefPathValue :: "heap \<Rightarrow> val \<Rightarrow> string \<Rightarrow> val option" where
  "getRefPathValue h root p = walk_segs h root (pointer_segs p)"


section \<open>The static check for local cycles\<close>

text \<open>
  \<open>traverse(schema).reduce\<close> with the callback of \<open>checkLocalCircular\<close>: a depth-first walk
  that skips a cell already visited and collects, for every node with a string \<open>$ref\<close> of
  local type and non-empty value, the pair of the node's joined path and the reference value.
  The root itself is not handed to the callback. The walk reads the store only; the first
  argument bounds the number of calls, and \<open>None\<close> means the bound was too small.
\<close>

type_synonym local_edge = "string \<times> string"

definition is_object :: "val \<Rightarrow> bool" where
  "is_object v = (case v of VRef a \<Rightarrow> True | VErr e \<Rightarrow> True | VNull \<Rightarrow> True | _ \<Rightarrow> False)"

definition collect_local :: "heap \<Rightarrow> local_edge list \<Rightarrow> val \<Rightarrow> key list \<Rightarrow> local_edge list" where
  "collect_local h acc node path =
     (case ref_string h node of
        None \<Rightarrow> acc
      | Some s \<Rightarrow>
          if getRefType s = Local \<and> s \<noteq> [] then acc @ [(join_path path, s)] else acc)"

fun reduce_walker :: "nat \<Rightarrow> heap \<Rightarrow> nat list \<Rightarrow> local_edge list \<Rightarrow> val \<Rightarrow> key list
        \<Rightarrow> (nat list \<times> local_edge list) option"
  and reduce_keys :: "nat \<Rightarrow> heap \<Rightarrow> nat list \<Rightarrow> local_edge list \<Rightarrow> nat \<Rightarrow> key list \<Rightarrow> key list
        \<Rightarrow> (nat list \<times> local_edge list) option" where
  "reduce_walker 0 h vis acc v path = None"
| "reduce_walker (Suc n) h vis acc v path =
     (case v of
        VRef a \<Rightarrow>
          if a \<in> set vis then Some (vis, acc)
          else (case cell_at h a of
                  None \<Rightarrow> Some (vis, acc)
                | Some c \<Rightarrow> reduce_keys n h (a # vis) acc a (keys_of c) path)
      | _ \<Rightarrow> Some (vis, acc))"
| "reduce_keys 0 h vis acc a ks path = None"
| "reduce_keys (Suc n) h vis acc a [] path = Some (vis, acc)"
| "reduce_keys (Suc n) h vis acc a (k # ks) path =
     (let newPath = path @ [k] in
      case get_key h a k of
        None \<Rightarrow> reduce_keys n h vis acc a ks path
      | Some node \<Rightarrow>
          (let acc' = collect_local h acc node newPath in
           if is_object node then
             (case reduce_walker n h vis acc' node newPath of
                None \<Rightarrow> None
              | Some (vis', acc'') \<Rightarrow> reduce_keys n h vis' acc'' a ks path)
           else reduce_keys n h vis acc' a ks path))"

definition collect_locals :: "nat \<Rightarrow> heap \<Rightarrow> val \<Rightarrow> local_edge list option" where
  "collect_locals n h schema = map_option snd (reduce_walker n h [] [] schema [])"

text \<open>The test of \<open>locals.some\<close>, branch by branch.\<close>

definition selfRef :: "local_edge \<Rightarrow> bool" where
  "selfRef elem =
     (let from = fst elem; to = snd elem in
      if to = ''#'' then True
      else (let toPath = substring2 to in
            if from = toPath then True
            else if toPath \<noteq> [] \<and> startsWith from toPath then True
            else if from \<noteq> [] \<and> startsWith toPath from then True
            else False))"

definition hasSelfRefs :: "local_edge list \<Rightarrow> bool" where
  "hasSelfRefs locals = list_ex selfRef locals"

text \<open>
  The dependency graph of the third-party package \<open>dag-map\<close>, modelled from the spec's
  description of it: vertices are path strings, every pair adds the edge "from depends on to"
  in order, and adding an edge that would close a cycle fails at once. An edge closes a cycle
  when its target already reaches its source.
\<close>

fun reaches :: "nat \<Rightarrow> (string \<times> string) list \<Rightarrow> string \<Rightarrow> string \<Rightarrow> bool" where
  "reaches 0 es x y = (x = y)"
| "reaches (Suc n) es x y = (x = y \<or> list_ex (\<lambda>e. fst e = x \<and> reaches n es (snd e) y) es)"

definition closes_cycle :: "(string \<times> string) list \<Rightarrow> string \<Rightarrow> string \<Rightarrow> bool" where
  "closes_cycle es from to = reaches (length es) es to from"

text \<open>\<open>locals.find\<close> over the edges: the first pair whose edge cannot be added.\<close>

fun find_cycle :: "(string \<times> string) list \<Rightarrow> local_edge list \<Rightarrow> local_edge option" where
  "find_cycle es [] = None"
| "find_cycle es (elem # rest) =
     (let from = fst elem; to = substring2 (snd elem) in
      if closes_cycle es from to then Some elem
      else find_cycle (es @ [(from, to)]) rest)"

definition check_edges :: "local_edge list \<Rightarrow> error option" where
  "check_edges locals =
     (if locals = [] then None
      else if hasSelfRefs locals then Some SelfReference
      else (case find_cycle [] locals of
              None \<Rightarrow> None
            | Some elem \<Rightarrow> Some (GraphCycle (fst elem) (snd elem))))"

definition checkLocalCircular :: "nat \<Rightarrow> heap \<Rightarrow> val \<Rightarrow> error option option" where
  "checkLocalCircular n h schema = map_option check_edges (collect_locals n h schema)"

section \<open>Deep merge\<close>

text \<open>
  \<open>_.merge({}, newValue, refObj)\<close> of the third-party package \<open>lodash\<close>, on trees. The keys of
  each source are taken in enumeration order. Where the source's value is an array, it is
  merged index by index into the destination's value if that is an array, and into a new
  array otherwise; where it is an object, it is merged key by key into the destination's
  value if that is an object or an array, and into a new object otherwise; any other value
  is assigned. The result shares nothing with its sources.

  Assigning to an array at an index beyond its end leaves empty slots, which are \<open>null\<close> here
  as in \<open>JSON.stringify\<close>. Not kept: a property with another name set on an array or on an
  \<open>Error\<close> object (neither the traversal nor \<open>JSON.stringify\<close> of an array sees it), and the
  reading of an object with a numeric \<open>length\<close> as array-like.
\<close>

definition nth_opt :: "'a list \<Rightarrow> nat \<Rightarrow> 'a option" where
  "nth_opt xs i = (if i < length xs then Some (xs ! i) else None)"

definition set_item :: "json list \<Rightarrow> nat \<Rightarrow> json \<Rightarrow> json list" where
  "set_item ds i x =
     (if i < length ds then ds[i := x] else ds @ replicate (i - length ds) JNull @ [x])"

fun merge_val :: "json option \<Rightarrow> json \<Rightarrow> json"
  and merge_fields :: "(string \<times> json) list \<Rightarrow> (string \<times> json) list \<Rightarrow> (string \<times> json) list"
  and merge_items :: "json list \<Rightarrow> nat \<Rightarrow> json list \<Rightarrow> json list"
  and merge_onto_array :: "json list \<Rightarrow> (string \<times> json) list \<Rightarrow> json list" where
  "merge_val ov (JObj fs) =
     (case ov of
        Some (JObj dfs) \<Rightarrow> JObj (merge_fields dfs fs)
      | Some (JArr ds) \<Rightarrow> JArr (merge_onto_array ds fs)
      | Some (JErr e) \<Rightarrow> JErr e
      | _ \<Rightarrow> JObj (merge_fields [] fs))"
| "merge_val ov (JArr js) =
     (case ov of
        Some (JArr ds) \<Rightarrow> JArr (merge_items ds 0 js)
      | _ \<Rightarrow> JArr (merge_items [] 0 js))"
| "merge_val ov JNull = JNull"
| "merge_val ov (JBool b) = JBool b"
| "merge_val ov (JNum n) = JNum n"
| "merge_val ov (JStr s) = JStr s"
| "merge_val ov (JErr e) = JErr e"
| "merge_fields dfs [] = dfs"
| "merge_fields dfs (f # fs) =
     merge_fields (assign dfs (fst f) (merge_val (lookup dfs (fst f)) (snd f))) fs"
| "merge_items ds i [] = ds"
| "merge_items ds i (j # js) =
     merge_items (set_item ds i (merge_val (nth_opt ds i) j)) (Suc i) js"
| "merge_onto_array ds [] = ds"
| "merge_onto_array ds (f # fs) =
     merge_onto_array
       (case index_key (fst f) of
          None \<Rightarrow> ds
        | Some i \<Rightarrow> set_item ds i (merge_val (nth_opt ds i) (snd f)))
       fs"

text \<open>The enumerable keys of a source at the top: fields, indices, or the characters of a string.\<close>

fun source_fields :: "json \<Rightarrow> (string \<times> json) list" where
  "source_fields (JObj fs) = fs"
| "source_fields (JArr js) = zip (map show_nat [0..<length js]) js"
| "source_fields (JStr s) = zip (map show_nat [0..<length s]) (map (\<lambda>c. JStr [c]) s)"
| "source_fields j = []"

definition js_truthy :: "json \<Rightarrow> bool" where
  "js_truthy j =
     (case j of JNull \<Rightarrow> False | JBool b \<Rightarrow> b | JNum n \<Rightarrow> n \<noteq> 0 | JStr s \<Rightarrow> s \<noteq> [] | _ \<Rightarrow> True)"

definition lodash_merge :: "json \<Rightarrow> json \<Rightarrow> json" where
  "lodash_merge newValue refObj =
     JObj (merge_fields
             (merge_fields [] (if js_truthy newValue then source_fields newValue else []))
             (source_fields refObj))"


section \<open>State, options and environment\<close>

text \<open>
  \<open>loads\<close> and \<open>unresolved\<close> are not fields of the program. \<open>loads\<close> records, in order, the
  arguments of every loader invocation, so that the number of invocations can be stated;
  \<open>unresolved\<close> records, in order, every destination that the resolution met and found
  nothing for, and unlike \<open>missing\<close> is never shortened. \<open>cache\<close> is the module-level
  variable, \<open>baseFolder\<close> the field of \<open>options\<close> that \<open>getRefSchema\<close> assigns.
\<close>

record state =
  heap :: heap
  cache :: "(string \<times> val) list"
  circular :: bool
  circularRefs :: "string list"
  cwd :: string
  baseFolder :: string
  missing :: "string list"
  history :: "string list"
  current :: string
  error :: "error option"
  loads :: "(string \<times> string) list"
  unresolved :: "string list"

type_synonym loader = "string \<Rightarrow> string \<Rightarrow> json option"

record options =
  failOnMissing :: bool
  removeIds :: bool
  mergeAdditionalProperties :: bool
  removeCircular :: bool
  loaders :: "reftype \<Rightarrow> loader option"

text \<open>
  What the module takes from outside the sources at hand: the built-in file loader
  (\<open>./loaders/file\<close>), \<open>utils.isAbsolute\<close>, the functions \<open>resolve\<close> and \<open>dirname\<close> of Node's
  \<open>path\<close>, the fingerprint \<open>md5\<close> of the serialised document, \<open>process.cwd()\<close> and
  \<open>String.prototype.toLowerCase\<close>. They are parameters.
\<close>

record env =
  fileLoader :: loader
  isAbsolute :: "string \<Rightarrow> bool"
  path_resolve :: "string \<Rightarrow> string \<Rightarrow> string"
  path_dirname :: "string \<Rightarrow> string"
  md5 :: "json \<Rightarrow> string"
  process_cwd :: string
  toLowerCase :: "string \<Rightarrow> string"

datatype 'a outcome = OutOfFuel | Thrown | Done 'a

definition getLoader :: "env \<Rightarrow> reftype \<Rightarrow> options \<Rightarrow> loader option" where
  "getLoader ev refType opts =
     (case loaders opts refType of
        Some l \<Rightarrow> Some l
      | None \<Rightarrow> (case refType of File \<Rightarrow> Some (fileLoader ev) | Local \<Rightarrow> None))"

section \<open>History\<close>

text \<open>Lines 116 to 123: the destination under which a reference enters the history.\<close>

definition history_dest :: "state \<Rightarrow> reftype \<Rightarrow> string \<Rightarrow> string" where
  "history_dest st type value =
     (if type = File then getRefFilePath value else current st @ '':'' @ value)"

definition addToHistory :: "env \<Rightarrow> state \<Rightarrow> reftype \<Rightarrow> string \<Rightarrow> bool \<times> state" where
  "addToHistory ev st type value =
     (if type \<noteq> File \<and> value = ''#'' then (False, st)
      else (let dest = history_dest st type value in
            if dest \<noteq> [] then
              (let dest' = toLowerCase ev dest in
               if dest' \<in> set (history st) then (False, st)
               else (True, st\<lparr>history := history st @ [dest']\<rparr>))
            else (True, st)))"

definition setCurrent :: "state \<Rightarrow> reftype \<Rightarrow> string \<Rightarrow> state" where
  "setCurrent st type value =
     (if type = File \<and> getRefFilePath value \<noteq> [] then st\<lparr>current := getRefFilePath value\<rparr>
      else st)"

definition history_pop :: "state \<Rightarrow> state" where
  "history_pop st = st\<lparr>history := butlast (history st)\<rparr>"

section \<open>The steps around a resolved or missing reference\<close>

text \<open>
  \<open>if (state.missing.indexOf(refVal) === -1) state.missing.push(refVal)\<close>, where the
  reference has just been found unresolvable, which \<open>unresolved\<close> records.
\<close>

definition note_missing :: "state \<Rightarrow> string \<Rightarrow> state" where
  "note_missing st refVal =
     (if refVal \<in> set (missing st) then st\<lparr>unresolved := unresolved st @ [refVal]\<rparr>
      else st\<lparr>missing := missing st @ [refVal], unresolved := unresolved st @ [refVal]\<rparr>)"

text \<open>\<open>state.missing.splice(state.missing.indexOf(refVal), 1)\<close> when present.\<close>

definition clear_missing :: "state \<Rightarrow> string \<Rightarrow> state" where
  "clear_missing st refVal = st\<lparr>missing := remove1 refVal (missing st)\<rparr>"

text \<open>
  \<open>if (options.removeIds && newValue.hasOwnProperty('$id')) delete newValue.$id\<close>. The
  deletion is on the object that \<open>newValue\<close> is, wherever else it is held. On \<open>null\<close> the
  property access throws.
\<close>

definition strip_id :: "options \<Rightarrow> state \<Rightarrow> val \<Rightarrow> state outcome" where
  "strip_id opts st newValue =
     (if removeIds opts then
        (case newValue of
           VNull \<Rightarrow> Thrown
         | VRef a \<Rightarrow>
             (case cell_at (heap st) a of
                Some (CObj kvs) \<Rightarrow>
                  (if lookup kvs ''$id'' \<noteq> None
                   then Done (st\<lparr>heap := (heap st)[a := CObj (remove_key kvs ''$id'')]\<rparr>)
                   else Done st)
              | _ \<Rightarrow> Done st)
         | _ \<Rightarrow> Done st)
      else Done st)"

text \<open>\<open>const refObj = { ...node }; delete refObj.$ref\<close>, read as a tree.\<close>

definition sibling_tree :: "nat \<Rightarrow> heap \<Rightarrow> val \<Rightarrow> json option" where
  "sibling_tree n h node =
     (case node of
        VRef a \<Rightarrow>
          (case cell_at h a of
             Some (CObj kvs) \<Rightarrow> map_option JObj (reify_fields n h (remove_key kvs ''$ref''))
           | Some (CArr vs) \<Rightarrow> map_option JArr (reify_items n h vs)
           | None \<Rightarrow> None)
      | _ \<Rightarrow> Some (JObj []))"

text \<open>
  \<open>if (options.mergeAdditionalProperties) newValue = _.merge({}, newValue, refObj)\<close>: the merged
  tree is built in new cells. The bound is on the depth of the two trees read.
\<close>

definition merge_siblings :: "nat \<Rightarrow> options \<Rightarrow> state \<Rightarrow> val \<Rightarrow> val \<Rightarrow> (val \<times> state) outcome" where
  "merge_siblings n opts st node newValue =
     (if mergeAdditionalProperties opts then
        (case (reify n (heap st) newValue, sibling_tree n (heap st) node) of
           (Some jv, Some jr) \<Rightarrow>
             (case alloc (lodash_merge jv jr) (heap st) of
                (v, h') \<Rightarrow> Done (v, st\<lparr>heap := h'\<rparr>))
         | _ \<Rightarrow> OutOfFuel)
      else Done (newValue, st))"

text \<open>Lines 324 to 332 and 365 to 372: strip the id, then merge the siblings.\<close>

definition prepare_value :: "nat \<Rightarrow> options \<Rightarrow> state \<Rightarrow> val \<Rightarrow> val \<Rightarrow> (val \<times> state) outcome" where
  "prepare_value n opts st node newValue =
     (case strip_id opts st newValue of
        OutOfFuel \<Rightarrow> OutOfFuel
      | Thrown \<Rightarrow> Thrown
      | Done st1 \<Rightarrow> merge_siblings n opts st1 node newValue)"

text \<open>The flagging of a live cycle, lines 297 to 298 and 348 to 349.\<close>

definition flag_circular :: "state \<Rightarrow> string \<Rightarrow> state" where
  "flag_circular st refVal = st\<lparr>circular := True, circularRefs := circularRefs st @ [refVal]\<rparr>"

definition set_circular_error :: "state \<Rightarrow> state" where
  "set_circular_error st = st\<lparr>error := Some (CircularRefs (circularRefs st))\<rparr>"

text \<open>The test at the head of \<open>derefSchema\<close>, lines 277 to 288: an error to return, or the state to go on with.\<close>

definition entry_check :: "options \<Rightarrow> state \<Rightarrow> error + state" where
  "entry_check opts st =
     (if circular st then
        (if removeCircular opts then Inr (st\<lparr>circular := False, circularRefs := [], error := None\<rparr>)
         else Inl (CircularRefs (circularRefs st)))
      else (case error st of
              Some e \<Rightarrow> if \<not> removeCircular opts then Inl e else Inr st
            | None \<Rightarrow> Inr st))"

text \<open>\<open>schema && schema.$ref && typeof schema.$ref === 'string'\<close>.\<close>

definition top_ref :: "heap \<Rightarrow> val \<Rightarrow> string option" where
  "top_ref h schema = (case ref_string h schema of Some s \<Rightarrow> if s \<noteq> [] then Some s else None | None \<Rightarrow> None)"


definition update :: "state \<Rightarrow> nat \<Rightarrow> key \<Rightarrow> val \<Rightarrow> state" where
  "update st parent k v = st\<lparr>heap := set_key (heap st) parent k v\<rparr>"

definition cache_get :: "state \<Rightarrow> string \<Rightarrow> val option" where
  "cache_get st p = (case lookup (cache st) p of Some v \<Rightarrow> if truthy v then Some v else None | None \<Rightarrow> None)"

definition fullRefFilePath :: "env \<Rightarrow> state \<Rightarrow> string \<Rightarrow> string" where
  "fullRefFilePath ev st refVal =
     (let filePath = getRefFilePath refVal in
      if isAbsolute ev filePath then filePath else path_resolve ev (cwd st) filePath)"

text \<open>Lines 61 to 72: the base folder to switch to before a loaded file is resolved.\<close>

definition nested_base :: "env \<Rightarrow> state \<Rightarrow> reftype \<Rightarrow> string \<Rightarrow> string option" where
  "nested_base ev st refType refVal =
     (if refType = File then
        (let d = path_dirname ev (getRefFilePath refVal);
             dirname = (if d = ''.'' then [] else d) in
         if dirname \<noteq> [] then Some (path_resolve ev (cwd st) dirname) else None)
      else None)"

definition set_base :: "state \<Rightarrow> string \<Rightarrow> state" where
  "set_base st b = st\<lparr>cwd := b, baseFolder := b\<rparr>"

text \<open>Lines 83 to 98: store in the cache, then pick the fragment or the whole.\<close>

definition store_and_pick :: "env \<Rightarrow> state \<Rightarrow> string \<Rightarrow> reftype \<Rightarrow> string \<Rightarrow> val \<Rightarrow> val option \<times> state" where
  "store_and_pick ev st full refType refVal loaderValue =
     (if truthy loaderValue then
        (let st1 = (if refType = File \<and> full \<noteq> [] \<and> cache_get st full = None
                    then st\<lparr>cache := assign (cache st) full loaderValue\<rparr> else st) in
         if has_hash refVal then
           (case getRefPathValue (heap st1) loaderValue (after_hash refVal) of
              Some r \<Rightarrow> (if truthy r then Some r else None, st1)
            | None \<Rightarrow> (None, st1))
         else (Some loaderValue, st1))
      else (None, st))"

section \<open>derefSchema, getRefSchema and the traversal\<close>

text \<open>
  \<open>derefSchema\<close>, \<open>getRefSchema\<close>, the \<open>walker\<close> of \<open>forEach\<close> with its loop over the keys
  (\<open>each_key\<close>) and the callback that \<open>derefSchema\<close> hands to \<open>forEach\<close> (\<open>visit\<close>) call each
  other. Each body is written first with the functions it calls as parameters; the recursion
  is then closed over a bound on the depth of calls, and \<open>OutOfFuel\<close> says the bound was
  reached. \<open>visit\<close> returns the context's \<open>stopped\<close> flag. The callback does not read the
  path, which is left out of the walker.
\<close>

type_synonym derefSchema_fn = "state \<Rightarrow> val \<Rightarrow> (val \<times> state) outcome"
type_synonym getRefSchema_fn = "state \<Rightarrow> string \<Rightarrow> reftype \<Rightarrow> val \<Rightarrow> (val option \<times> state) outcome"
type_synonym walker_fn = "val \<Rightarrow> nat list \<Rightarrow> state \<Rightarrow> val \<Rightarrow> (nat list \<times> state) outcome"
type_synonym each_key_fn = "val \<Rightarrow> nat list \<Rightarrow> state \<Rightarrow> nat \<Rightarrow> key list \<Rightarrow> (nat list \<times> state) outcome"
type_synonym visit_fn = "val \<Rightarrow> state \<Rightarrow> nat \<Rightarrow> key \<Rightarrow> val \<Rightarrow> (bool \<times> state) outcome"

text \<open>Lines 291 to 339: the document is itself a reference.\<close>

definition top_level_ref :: "getRefSchema_fn \<Rightarrow> nat \<Rightarrow> env \<Rightarrow> options \<Rightarrow> state \<Rightarrow> val \<Rightarrow> string
    \<Rightarrow> (val \<times> state) outcome" where
  "top_level_ref getRef n ev opts st0 schema refVal =
     (let refType = getRefType refVal in
      case addToHistory ev st0 refType refVal of
        (False, st1) \<Rightarrow>
          (if removeCircular opts then Done (schema, flag_circular st1 refVal)
           else Done (schema, set_circular_error (flag_circular st1 refVal)))
      | (True, st1) \<Rightarrow>
          (case getRef (setCurrent st1 refType refVal) refVal refType schema of
             OutOfFuel \<Rightarrow> OutOfFuel
           | Thrown \<Rightarrow> Thrown
           | Done (r, st2) \<Rightarrow>
               (let st3 = history_pop st2 in
                case r of
                  None \<Rightarrow>
                    (let st4 = note_missing st3 refVal in
                     if failOnMissing opts
                     then Done (VErr (MissingRef refVal), st4\<lparr>error := Some (MissingRef refVal)\<rparr>)
                     else Done (schema, st4))
                | Some newValue \<Rightarrow>
                    (case prepare_value n opts st3 schema newValue of
                       OutOfFuel \<Rightarrow> OutOfFuel
                     | Thrown \<Rightarrow> Thrown
                     | Done (v, st4) \<Rightarrow> Done (v, clear_missing st4 refVal)))))"

definition derefSchema_body :: "getRefSchema_fn \<Rightarrow> walker_fn \<Rightarrow> nat \<Rightarrow> env \<Rightarrow> options \<Rightarrow> state \<Rightarrow> val
    \<Rightarrow> (val \<times> state) outcome" where
  "derefSchema_body getRef walk n ev opts st schema =
     (case checkLocalCircular n (heap st) schema of
        None \<Rightarrow> OutOfFuel
      | Some check \<Rightarrow>
          (if check \<noteq> None \<and> \<not> removeCircular opts then Done (VErr (the check), st)
           else
             (case entry_check opts st of
                Inl e \<Rightarrow> Done (VErr e, st)
              | Inr st0 \<Rightarrow>
                  (case top_ref (heap st0) schema of
                     Some refVal \<Rightarrow> top_level_ref getRef n ev opts st0 schema refVal
                   | None \<Rightarrow>
                       (case walk schema [] st0 schema of
                          OutOfFuel \<Rightarrow> OutOfFuel
                        | Thrown \<Rightarrow> Thrown
                        | Done (vis, st1) \<Rightarrow> Done (schema, st1))))))"

text \<open>
  Lines 57 to 81: no cached value, so the loader is asked and its content resolved. The
  loader's answer is a tree with the members in the order of the file.
\<close>

definition load_and_resolve :: "derefSchema_fn \<Rightarrow> env \<Rightarrow> loader \<Rightarrow> state \<Rightarrow> string \<Rightarrow> reftype
    \<Rightarrow> (val option \<times> state) outcome" where
  "load_and_resolve derefS ev ld st refVal refType =
     (let st1 = st\<lparr>loads := loads st @ [(refVal, baseFolder st)]\<rparr> in
      case ld refVal (baseFolder st) of
        None \<Rightarrow> Done (None, st1)
      | Some content \<Rightarrow>
          (case alloc (enumerated content) (heap st1) of
             (raw, h') \<Rightarrow>
               (let st2 = st1\<lparr>heap := h'\<rparr> in
                if \<not> truthy raw then Done (None, st2)
                else
                  (let nb = nested_base ev st2 refType refVal;
                       oldBasePath = cwd st2;
                       st3 = (case nb of Some b \<Rightarrow> set_base st2 b | None \<Rightarrow> st2) in
                   case derefS st3 raw of
                     OutOfFuel \<Rightarrow> OutOfFuel
                   | Thrown \<Rightarrow> Thrown
                   | Done (loaderValue, st4) \<Rightarrow>
                       Done (Some loaderValue,
                             if nb \<noteq> None \<and> oldBasePath \<noteq> [] then set_base st4 oldBasePath else st4)))))"

definition getRefSchema_body :: "derefSchema_fn \<Rightarrow> env \<Rightarrow> options \<Rightarrow> state \<Rightarrow> string \<Rightarrow> reftype \<Rightarrow> val
    \<Rightarrow> (val option \<times> state) outcome" where
  "getRefSchema_body derefS ev opts st refVal refType parent =
     (case getLoader ev refType opts of
        Some ld \<Rightarrow>
          (let full = fullRefFilePath ev st refVal in
           case (if refType = File then cache_get st full else None) of
             Some loaderValue \<Rightarrow> Done (store_and_pick ev st full refType refVal loaderValue)
           | None \<Rightarrow>
               (case load_and_resolve derefS ev ld st refVal refType of
                  OutOfFuel \<Rightarrow> OutOfFuel
                | Thrown \<Rightarrow> Thrown
                | Done (None, st1) \<Rightarrow> Done (None, st1)
                | Done (Some loaderValue, st1) \<Rightarrow>
                    Done (store_and_pick ev st1 full refType refVal loaderValue)))
      | None \<Rightarrow>
          (if refType = Local then Done (getRefPathValue (heap st) parent refVal, st)
           else Done (None, st)))"

definition walker_body :: "each_key_fn \<Rightarrow> val \<Rightarrow> nat list \<Rightarrow> state \<Rightarrow> val \<Rightarrow> (nat list \<times> state) outcome" where
  "walker_body each schema vis st v =
     (case v of
        VRef a \<Rightarrow>
          if a \<in> set vis then Done (vis, st)
          else (case cell_at (heap st) a of
                  None \<Rightarrow> Done (vis, st)
                | Some c \<Rightarrow> each schema (a # vis) st a (keys_of c))
      | _ \<Rightarrow> Done (vis, st))"

definition each_key_body :: "each_key_fn \<Rightarrow> walker_fn \<Rightarrow> visit_fn \<Rightarrow> val \<Rightarrow> nat list \<Rightarrow> state \<Rightarrow> nat
    \<Rightarrow> key list \<Rightarrow> (nat list \<times> state) outcome" where
  "each_key_body each walk vst schema vis st a ks =
     (case ks of
        [] \<Rightarrow> Done (vis, st)
      | k # rest \<Rightarrow>
          (case get_key (heap st) a k of
             None \<Rightarrow> each schema vis st a rest
           | Some node \<Rightarrow>
               (case vst schema st a k node of
                  OutOfFuel \<Rightarrow> OutOfFuel
                | Thrown \<Rightarrow> Thrown
                | Done (stopped, st1) \<Rightarrow>
                    (case get_key (heap st1) a k of
                       Some cur \<Rightarrow>
                         (if \<not> stopped \<and> is_object cur then
                            (case walk schema vis st1 cur of
                               OutOfFuel \<Rightarrow> OutOfFuel
                             | Thrown \<Rightarrow> Thrown
                             | Done (vis', st2) \<Rightarrow> each schema vis' st2 a rest)
                          else each schema vis st1 a rest)
                     | None \<Rightarrow> each schema vis st1 a rest))))"

text \<open>Lines 342 to 379, the callback.\<close>

definition visit_body :: "getRefSchema_fn \<Rightarrow> nat \<Rightarrow> env \<Rightarrow> options \<Rightarrow> val \<Rightarrow> state \<Rightarrow> nat \<Rightarrow> key \<Rightarrow> val
    \<Rightarrow> (bool \<times> state) outcome" where
  "visit_body getRef n ev opts schema st parent k node =
     (case ref_string (heap st) node of
        None \<Rightarrow> Done (False, st)
      | Some refVal \<Rightarrow>
          (let refType = getRefType refVal in
           case addToHistory ev st refType refVal of
             (False, st1) \<Rightarrow>
               Done (True, update (set_circular_error (flag_circular st1 refVal)) parent k node)
           | (True, st1) \<Rightarrow>
               (case getRef (setCurrent st1 refType refVal) refVal refType schema of
                  OutOfFuel \<Rightarrow> OutOfFuel
                | Thrown \<Rightarrow> Thrown
                | Done (r, st2) \<Rightarrow>
                    (let st3 = history_pop st2 in
                     case r of
                       None \<Rightarrow>
                         (let st4 = note_missing st3 refVal;
                              st5 = (if failOnMissing opts
                                     then st4\<lparr>error := Some (MissingRef refVal)\<rparr> else st4) in
                          Done (failOnMissing opts, update st5 parent k node))
                     | Some newValue \<Rightarrow>
                         (case prepare_value n opts st3 node newValue of
                            OutOfFuel \<Rightarrow> OutOfFuel
                          | Thrown \<Rightarrow> Thrown
                          | Done (v, st4) \<Rightarrow> Done (False, clear_missing (update st4 parent k v) refVal))))))"

text \<open>The five functions at a given bound, as one tuple.\<close>

primrec machine :: "nat \<Rightarrow> env \<Rightarrow> options
    \<Rightarrow> derefSchema_fn \<times> getRefSchema_fn \<times> walker_fn \<times> each_key_fn \<times> visit_fn" where
  "machine 0 ev opts =
     (\<lambda>st schema. OutOfFuel, \<lambda>st refVal refType parent. OutOfFuel, \<lambda>schema vis st v. OutOfFuel,
      \<lambda>schema vis st a ks. OutOfFuel, \<lambda>schema st parent k node. OutOfFuel)"
| "machine (Suc n) ev opts =
     (case machine n ev opts of
        (derefS, getRef, walk, each, vst) \<Rightarrow>
          (derefSchema_body getRef walk n ev opts,
           getRefSchema_body derefS ev opts,
           walker_body each,
           each_key_body each walk vst,
           visit_body getRef n ev opts))"

definition derefSchema :: "nat \<Rightarrow> env \<Rightarrow> options \<Rightarrow> derefSchema_fn" where
  "derefSchema n ev opts = fst (machine n ev opts)"

definition getRefSchema :: "nat \<Rightarrow> env \<Rightarrow> options \<Rightarrow> getRefSchema_fn" where
  "getRefSchema n ev opts = fst (snd (machine n ev opts))"

definition walker :: "nat \<Rightarrow> env \<Rightarrow> options \<Rightarrow> walker_fn" where
  "walker n ev opts = fst (snd (snd (machine n ev opts)))"


definition visit :: "nat \<Rightarrow> env \<Rightarrow> options \<Rightarrow> visit_fn" where
  "visit n ev opts = snd (snd (snd (snd (machine n ev opts))))"

section \<open>deref\<close>

definition initial_state :: "env \<Rightarrow> string option \<Rightarrow> heap \<Rightarrow> string \<Rightarrow> state" where
  "initial_state ev bf_opt h fingerprint =
     (let bf = (case bf_opt of Some b \<Rightarrow> b | None \<Rightarrow> process_cwd ev);
          c = (if isAbsolute ev bf then bf else path_resolve ev (process_cwd ev) bf) in
      \<lparr>heap = h, cache = [], circular = False, circularRefs = [], cwd = c, baseFolder = bf,
       missing = [], history = [], current = fingerprint, error = None, loads = [],
       unresolved = []\<rparr>)"

definition is_error :: "val \<Rightarrow> bool" where
  "is_error v = (case v of VErr e \<Rightarrow> True | _ \<Rightarrow> False)"

text \<open>
  The second argument is \<open>options.baseFolder\<close> as the caller gave it, the store holds the
  caller's document at \<open>schema\<close>. The result is the value returned and the final state.
\<close>

definition deref :: "nat \<Rightarrow> env \<Rightarrow> options \<Rightarrow> string option \<Rightarrow> heap \<Rightarrow> val \<Rightarrow> (val \<times> state) outcome" where
  "deref n ev opts bf_opt h schema =
     (case stringify h schema of
        None \<Rightarrow> Done (VErr SerializeError, initial_state ev bf_opt h [])
      | Some str \<Rightarrow>
          (case structuredClone h schema of
             None \<Rightarrow> OutOfFuel
           | Some (baseSchema, h') \<Rightarrow>
               (case derefSchema n ev opts (initial_state ev bf_opt h' (md5 ev str)) baseSchema of
                  OutOfFuel \<Rightarrow> OutOfFuel
                | Thrown \<Rightarrow> Thrown
                | Done (ret, st) \<Rightarrow>
                    (if \<not> is_error ret \<and> error st \<noteq> None then Done (VErr (the (error st)), st)
                     else Done (ret, st)))))"


section \<open>Running a document given as a tree\<close>

text \<open>
  A caller's document given as a tree, its members in the order of the text, is placed in an
  empty store and handed to \<open>deref\<close>; \<open>result_tree\<close> reads the returned value back as a tree (\<open>None\<close> when the returned
  object is circular).
\<close>

definition deref_tree :: "nat \<Rightarrow> env \<Rightarrow> options \<Rightarrow> json \<Rightarrow> (val \<times> state) outcome" where
  "deref_tree n ev opts doc = (case alloc (enumerated doc) [] of (v, h) \<Rightarrow> deref n ev opts None h v)"

definition result_tree :: "(val \<times> state) outcome \<Rightarrow> json option outcome" where
  "result_tree r =
     (case r of
        OutOfFuel \<Rightarrow> OutOfFuel
      | Thrown \<Rightarrow> Thrown
      | Done (v, st) \<Rightarrow> Done (stringify (heap st) v))"

definition final_state :: "(val \<times> state) outcome \<Rightarrow> state option" where
  "final_state r = (case r of Done (v, st) \<Rightarrow> Some st | _ \<Rightarrow> None)"

text \<open>The defaults of the module, lines 9 to 15, with no loader registered by the caller.\<close>

definition defaults :: options where
  "defaults = \<lparr>failOnMissing = False, removeIds = False, mergeAdditionalProperties = False,
               removeCircular = False, loaders = (\<lambda>t. None)\<rparr>"

text \<open>
  An environment for the examples, whose strings are ASCII: paths are joined with a slash
  and not normalised, the directory of a path is what precedes its last slash, every
  document has the same fingerprint, and lowercasing is that of ASCII. \<open>files_env\<close> loads from a table of file contents keyed by the reference's path.
\<close>

definition simple_dirname :: "string \<Rightarrow> string" where
  "simple_dirname p =
     (if CHR ''/'' \<in> set p then rev (tl (dropWhile (\<lambda>c. c \<noteq> CHR ''/'') (rev p))) else ''.'')"

definition simple_resolve :: "string \<Rightarrow> string \<Rightarrow> string" where
  "simple_resolve c p = (if startsWith p ''/'' then p else c @ ''/'' @ p)"

definition files_env :: "(string \<times> json) list \<Rightarrow> env" where
  "files_env files =
     \<lparr>fileLoader = (\<lambda>refVal base. lookup files (getRefFilePath refVal)),
      isAbsolute = (\<lambda>p. startsWith p ''/''),
      path_resolve = simple_resolve,
      path_dirname = simple_dirname,
      md5 = (\<lambda>j. ''0cc175b9''),
      process_cwd = ''/work'',
      toLowerCase = ascii_toLowerCase\<rparr>"

definition plain_env :: env where
  "plain_env = files_env []"

definition obj_ref :: "string \<Rightarrow> json" where
  "obj_ref p = JObj [(''$ref'', JStr p)]"


definition returns_document :: "(val \<times> state) outcome \<Rightarrow> bool" where
  "returns_document r = (case r of Done (v, st) \<Rightarrow> \<not> is_error v | _ \<Rightarrow> False)"

text \<open>A reference at \<open>/a/b\<close> to its own parent \<open>/a\<close>.\<close>

definition nested_self :: json where
  "nested_self = JObj [(''a'', JObj [(''b'', obj_ref ''#/a'')])]"

definition final_error :: "(val \<times> state) outcome \<Rightarrow> error option" where
  "final_error r = (case r of Done (v, st) \<Rightarrow> error st | _ \<Rightarrow> None)"





text \<open>
  The state after a reference was found unresolvable, lines 314 to 319 and 357 to 362: the
  destination is noted and, with \<open>failOnMissing\<close>, the error of the run is set.
\<close>

definition after_unresolved :: "options \<Rightarrow> state \<Rightarrow> string \<Rightarrow> state" where
  "after_unresolved opts st refVal =
     (if failOnMissing opts then (note_missing st refVal)\<lparr>error := Some (MissingRef refVal)\<rparr>
      else note_missing st refVal)"


section \<open>What a deep merge keeps\<close>




text \<open>No object of the tree has a property name twice, which is so of every parsed document.\<close>

fun unique_keys :: "json \<Rightarrow> bool"
  and unique_fields :: "(string \<times> json) list \<Rightarrow> bool"
  and unique_items :: "json list \<Rightarrow> bool" where
  "unique_keys (JObj fs) = (distinct (map fst fs) \<and> unique_fields fs)"
| "unique_keys (JArr js) = unique_items js"
| "unique_keys JNull = True"
| "unique_keys (JBool b) = True"
| "unique_keys (JNum n) = True"
| "unique_keys (JStr s) = True"
| "unique_keys (JErr e) = True"
| "unique_fields [] = True"
| "unique_fields (f # fs) = (unique_keys (snd f) \<and> unique_fields fs)"
| "unique_items [] = True"
| "unique_items (j # js) = (unique_keys j \<and> unique_items js)"


section \<open>The functions unfolded by one call\<close>


lemma derefSchema_Suc [code]:
  "derefSchema (Suc n) ev opts st schema =
     derefSchema_body (getRefSchema n ev opts) (walker n ev opts) n ev opts st schema"
  by (simp add: derefSchema_def getRefSchema_def walker_def split: prod.splits)


lemma getRefSchema_Suc [code]:
  "getRefSchema (Suc n) ev opts st refVal refType parent =
     getRefSchema_body (derefSchema n ev opts) ev opts st refVal refType parent"
  by (simp add: derefSchema_def getRefSchema_def split: prod.splits)






lemma visit_Suc [code]:
  "visit (Suc n) ev opts schema st parent k node =
     visit_body (getRefSchema n ev opts) n ev opts schema st parent k node"
  by (simp add: visit_def getRefSchema_def split: prod.splits)

section \<open>Property lists and the store\<close>












section \<open>The ways each function returns\<close>








section \<open>Properties of the state kept by every step\<close>


section \<open>What each elementary step changes\<close>


lemma strip_id_fields:
  "strip_id opts st v = Done st' \<Longrightarrow>
   cache st' = cache st \<and> error st' = error st \<and> loads st' = loads st
   \<and> unresolved st' = unresolved st \<and> missing st' = missing st \<and> history st' = history st"
  by (auto simp: strip_id_def split: if_splits val.splits option.splits cell.splits)

lemma merge_siblings_fields:
  "merge_siblings n opts st node v = Done (v', st') \<Longrightarrow>
   cache st' = cache st \<and> error st' = error st \<and> loads st' = loads st
   \<and> unresolved st' = unresolved st \<and> missing st' = missing st \<and> history st' = history st"
  by (auto simp: merge_siblings_def split: if_splits option.splits prod.splits)

lemma prepare_value_fields:
  assumes "prepare_value n opts st node v = Done (v', st')"
  shows "cache st' = cache st \<and> error st' = error st \<and> loads st' = loads st
   \<and> unresolved st' = unresolved st \<and> missing st' = missing st \<and> history st' = history st"
proof -
  from assms obtain st1 where 1: "strip_id opts st v = Done st1"
    and 2: "merge_siblings n opts st1 node v = Done (v', st')"
    by (auto simp: prepare_value_def split: outcome.splits)
  from strip_id_fields[OF 1] merge_siblings_fields[OF 2] show ?thesis by simp
qed




lemma getRefSchema_local:
  "loaders opts Local = None \<Longrightarrow>
   getRefSchema (Suc n) ev opts st refVal Local parent = Done (getRefPathValue (heap st) parent refVal, st)"
  by (simp add: getRefSchema_Suc getRefSchema_body_def getLoader_def)



section \<open>References that resolve to nothing\<close>









section \<open>Two runs that leave references behind\<close>

text \<open>
  Claim C2 at the document \<open>{"a": {"$ref": "#/b"}, "b": {"$ref": "#/a"}}\<close>. With the default
  options the static check reports the cycle. With \<open>removeCircular\<close> the call returns a
  document, but not the input: the reference at \<open>a\<close> has been replaced by the node at \<open>b\<close>, and
  the reference at \<open>b\<close> by the node then at \<open>a\<close>, so both read \<open>#/a\<close>.
\<close>

theorem circular_pair:
  "result_tree (deref_tree 8 plain_env defaults (JObj [(''a'', obj_ref ''#/b''), (''b'', obj_ref ''#/a'')]))
     = Done (Some (JErr (GraphCycle ''b'' ''#/a'')))
   \<and> result_tree (deref_tree 8 plain_env (defaults\<lparr>removeCircular := True\<rparr>)
        (JObj [(''a'', obj_ref ''#/b''), (''b'', obj_ref ''#/a'')]))
     = Done (Some (JObj [(''a'', obj_ref ''#/a''), (''b'', obj_ref ''#/a'')]))"
  by code_simp

text \<open>
  Claim C9 at the document \<open>{"a": {"$ref": "#/b"}, "b": {"$ref": "#/c"}, "c": {"t": 1}}\<close>.
  The first call puts the node of \<open>b\<close>, itself a reference, at \<open>a\<close> and does not look at it
  again; a second call on the result resolves it, so the two results differ.
\<close>

theorem chained_references_two_passes:
  "result_tree (deref_tree 8 plain_env defaults
      (JObj [(''a'', obj_ref ''#/b''), (''b'', obj_ref ''#/c''), (''c'', JObj [(''t'', JNum 1)])]))
     = Done (Some (JObj [(''a'', obj_ref ''#/c''), (''b'', JObj [(''t'', JNum 1)]), (''c'', JObj [(''t'', JNum 1)])]))
   \<and> result_tree (deref_tree 8 plain_env defaults
      (JObj [(''a'', obj_ref ''#/c''), (''b'', JObj [(''t'', JNum 1)]), (''c'', JObj [(''t'', JNum 1)])]))
     = Done (Some (JObj [(''a'', JObj [(''t'', JNum 1)]), (''b'', JObj [(''t'', JNum 1)]), (''c'', JObj [(''t'', JNum 1)])]))"
  by code_simp

section \<open>Local references\<close>

lemma addToHistory_local:
  "addToHistory ev st Local refVal =
     (if refVal = ''#'' \<or> toLowerCase ev (current st @ '':'' @ refVal) \<in> set (history st) then (False, st)
      else (True, st\<lparr>history := history st @ [toLowerCase ev (current st @ '':'' @ refVal)]\<rparr>))"
  by (simp add: addToHistory_def history_dest_def Let_def)

lemma history_pop_pushed: "history_pop (st\<lparr>history := history st @ [x]\<rparr>) = st"
  by (simp add: history_pop_def)

lemma setCurrent_local: "setCurrent st Local v = st"
  by (simp add: setCurrent_def)

lemma visit_local:
  assumes "loaders opts Local = None" and "getRefType refVal = Local"
    and "ref_string (heap st) node = Some refVal"
  shows "visit (Suc (Suc n)) ev opts schema st parent k node =
       (if refVal = ''#'' \<or> toLowerCase ev (current st @ '':'' @ refVal) \<in> set (history st)
        then Done (True, update (set_circular_error (flag_circular st refVal)) parent k node)
        else (case getRefPathValue (heap st) schema refVal of
                None \<Rightarrow> Done (failOnMissing opts, update (after_unresolved opts st refVal) parent k node)
              | Some newValue \<Rightarrow>
                  (case prepare_value (Suc n) opts st node newValue of
                     OutOfFuel \<Rightarrow> OutOfFuel
                   | Thrown \<Rightarrow> Thrown
                   | Done (v, st4) \<Rightarrow> Done (False, clear_missing (update st4 parent k v) refVal))))"
  using assms
  by (simp add: visit_Suc visit_body_def addToHistory_local setCurrent_local getRefSchema_local
      history_pop_pushed after_unresolved_def Let_def split: option.splits)

lemma top_level_local:
  assumes "loaders opts Local = None" and "getRefType refVal = Local"
  shows "top_level_ref (getRefSchema (Suc n) ev opts) (Suc n) ev opts st schema refVal =
       (if refVal = ''#'' \<or> toLowerCase ev (current st @ '':'' @ refVal) \<in> set (history st)
        then Done (schema, if removeCircular opts then flag_circular st refVal
                           else set_circular_error (flag_circular st refVal))
        else (case getRefPathValue (heap st) schema refVal of
                None \<Rightarrow> Done (if failOnMissing opts then VErr (MissingRef refVal) else schema,
                              after_unresolved opts st refVal)
              | Some newValue \<Rightarrow>
                  (case prepare_value (Suc n) opts st schema newValue of
                     OutOfFuel \<Rightarrow> OutOfFuel
                   | Thrown \<Rightarrow> Thrown
                   | Done (v, st4) \<Rightarrow> Done (v, clear_missing st4 refVal))))"
  using assms
  by (simp add: top_level_ref_def addToHistory_local setCurrent_local getRefSchema_local
      history_pop_pushed after_unresolved_def Let_def split: option.splits)

lemma prepare_value_plain:
  "\<not> removeIds opts \<Longrightarrow> \<not> mergeAdditionalProperties opts \<Longrightarrow>
   prepare_value n opts st node v = Done (v, st)"
  by (simp add: prepare_value_def strip_id_def merge_siblings_def)

lemma visit_local_loads:
  assumes "loaders opts Local = None" and "getRefType refVal = Local"
    and "ref_string (heap st) node = Some refVal"
    and "visit (Suc (Suc n)) ev opts schema st parent k node = Done (b, st')"
  shows "loads st' = loads st"
  using assms(4) prepare_value_fields[of "Suc n" opts st node]
  unfolding visit_local[OF assms(1-3)]
  by (fastforce simp: update_def set_circular_error_def flag_circular_def clear_missing_def
      after_unresolved_def note_missing_def split: if_splits option.splits outcome.splits)

lemma top_level_local_loads:
  assumes "loaders opts Local = None" and "getRefType refVal = Local"
    and "top_level_ref (getRefSchema (Suc n) ev opts) (Suc n) ev opts st schema refVal = Done (v, st')"
  shows "loads st' = loads st"
  using assms(3) prepare_value_fields[of "Suc n" opts st schema]
  unfolding top_level_local[OF assms(1-2)]
  by (fastforce simp: set_circular_error_def flag_circular_def clear_missing_def
      after_unresolved_def note_missing_def split: if_splits option.splits outcome.splits)

text \<open>
  Claim C4, as the code has it. Take a reference whose value begins with \<open>#\<close>, and no loader
  registered under the type of local references. Where the callback meets it at a node, and
  where the document handed to \<open>derefSchema\<close> is itself that reference: if the value is
  exactly \<open>#\<close>, or its history key (the current fingerprint, a colon and the value, lowercased)
  is on the history, nothing is looked up, the reference is flagged as circular and stays where
  it is; otherwise the pointer is looked up in the store as it is at that moment, from the
  document being resolved, substitutions already made included. A pointer that finds nothing
  leaves the reference where it is and notes it as unresolvable. A value found is, after
  \<open>removeIds\<close> and \<open>mergeAdditionalProperties\<close> were applied, what is written at the
  reference's place, and with both options off it is written as found. In every case the
  history is as before and no loader was invoked.
\<close>

theorem local_reference_working_copy:
  assumes "loaders opts Local = None" and "getRefType refVal = Local"
  shows "(ref_string (heap st) node = Some refVal \<longrightarrow>
          visit (Suc (Suc n)) ev opts schema st parent k node =
            (if refVal = ''#'' \<or> toLowerCase ev (current st @ '':'' @ refVal) \<in> set (history st)
             then Done (True, update (set_circular_error (flag_circular st refVal)) parent k node)
             else (case getRefPathValue (heap st) schema refVal of
                     None \<Rightarrow> Done (failOnMissing opts, update (after_unresolved opts st refVal) parent k node)
                   | Some newValue \<Rightarrow>
                       (case prepare_value (Suc n) opts st node newValue of
                          OutOfFuel \<Rightarrow> OutOfFuel
                        | Thrown \<Rightarrow> Thrown
                        | Done (v, st4) \<Rightarrow> Done (False, clear_missing (update st4 parent k v) refVal)))))
       \<and> (ref_string (heap st) node = Some refVal \<longrightarrow> refVal \<noteq> ''#'' \<longrightarrow>
          toLowerCase ev (current st @ '':'' @ refVal) \<notin> set (history st) \<longrightarrow>
          getRefPathValue (heap st) schema refVal = Some newValue \<longrightarrow>
          \<not> removeIds opts \<longrightarrow> \<not> mergeAdditionalProperties opts \<longrightarrow>
          visit (Suc (Suc n)) ev opts schema st parent k node
            = Done (False, clear_missing (update st parent k newValue) refVal))
       \<and> (ref_string (heap st) node = Some refVal \<longrightarrow>
          visit (Suc (Suc n)) ev opts schema st parent k node = Done (b, st') \<longrightarrow>
          loads st' = loads st \<and> history st' = history st)
       \<and> top_level_ref (getRefSchema (Suc n) ev opts) (Suc n) ev opts st schema refVal =
            (if refVal = ''#'' \<or> toLowerCase ev (current st @ '':'' @ refVal) \<in> set (history st)
             then Done (schema, if removeCircular opts then flag_circular st refVal
                                else set_circular_error (flag_circular st refVal))
             else (case getRefPathValue (heap st) schema refVal of
                     None \<Rightarrow> Done (if failOnMissing opts then VErr (MissingRef refVal) else schema,
                                   after_unresolved opts st refVal)
                   | Some newValue \<Rightarrow>
                       (case prepare_value (Suc n) opts st schema newValue of
                          OutOfFuel \<Rightarrow> OutOfFuel
                        | Thrown \<Rightarrow> Thrown
                        | Done (v, st4) \<Rightarrow> Done (v, clear_missing st4 refVal))))
       \<and> (top_level_ref (getRefSchema (Suc n) ev opts) (Suc n) ev opts st schema refVal = Done (w, st'') \<longrightarrow>
          loads st'' = loads st \<and> history st'' = history st)"
proof (intro conjI impI)
  assume r: "ref_string (heap st) node = Some refVal"
  show "visit (Suc (Suc n)) ev opts schema st parent k node =
            (if refVal = ''#'' \<or> toLowerCase ev (current st @ '':'' @ refVal) \<in> set (history st)
             then Done (True, update (set_circular_error (flag_circular st refVal)) parent k node)
             else (case getRefPathValue (heap st) schema refVal of
                     None \<Rightarrow> Done (failOnMissing opts, update (after_unresolved opts st refVal) parent k node)
                   | Some newValue \<Rightarrow>
                       (case prepare_value (Suc n) opts st node newValue of
                          OutOfFuel \<Rightarrow> OutOfFuel
                        | Thrown \<Rightarrow> Thrown
                        | Done (v, st4) \<Rightarrow> Done (False, clear_missing (update st4 parent k v) refVal))))"
    by (rule visit_local[OF assms r])
next
  assume r: "ref_string (heap st) node = Some refVal" and "refVal \<noteq> ''#''"
    and "toLowerCase ev (current st @ '':'' @ refVal) \<notin> set (history st)"
    and "getRefPathValue (heap st) schema refVal = Some newValue"
    and "\<not> removeIds opts" and "\<not> mergeAdditionalProperties opts"
  then show "visit (Suc (Suc n)) ev opts schema st parent k node
            = Done (False, clear_missing (update st parent k newValue) refVal)"
    by (simp add: visit_local[OF assms r] prepare_value_plain)
next
  assume r: "ref_string (heap st) node = Some refVal"
    and v: "visit (Suc (Suc n)) ev opts schema st parent k node = Done (b, st')"
  show "loads st' = loads st" by (rule visit_local_loads[OF assms r v])
  show "history st' = history st"
    using v prepare_value_fields[of "Suc n" opts st node]
    unfolding visit_local[OF assms r]
    by (fastforce simp: update_def set_circular_error_def flag_circular_def clear_missing_def
        after_unresolved_def note_missing_def split: if_splits option.splits outcome.splits)
next
  show "top_level_ref (getRefSchema (Suc n) ev opts) (Suc n) ev opts st schema refVal =
            (if refVal = ''#'' \<or> toLowerCase ev (current st @ '':'' @ refVal) \<in> set (history st)
             then Done (schema, if removeCircular opts then flag_circular st refVal
                                else set_circular_error (flag_circular st refVal))
             else (case getRefPathValue (heap st) schema refVal of
                     None \<Rightarrow> Done (if failOnMissing opts then VErr (MissingRef refVal) else schema,
                                   after_unresolved opts st refVal)
                   | Some newValue \<Rightarrow>
                       (case prepare_value (Suc n) opts st schema newValue of
                          OutOfFuel \<Rightarrow> OutOfFuel
                        | Thrown \<Rightarrow> Thrown
                        | Done (v, st4) \<Rightarrow> Done (v, clear_missing st4 refVal))))"
    by (rule top_level_local[OF assms])
next
  assume t: "top_level_ref (getRefSchema (Suc n) ev opts) (Suc n) ev opts st schema refVal = Done (w, st'')"
  show "loads st'' = loads st" by (rule top_level_local_loads[OF assms t])
  show "history st'' = history st"
    using t prepare_value_fields[of "Suc n" opts st schema]
    unfolding top_level_local[OF assms]
    by (fastforce simp: set_circular_error_def flag_circular_def clear_missing_def
        after_unresolved_def note_missing_def split: if_splits option.splits outcome.splits)
qed

text \<open>
  The theorem at \<open>{"x": {"$ref": "#/y"}, "y": {"t": 1}}\<close>, where the callback is at \<open>x\<close>, and at
  the document \<open>{"$ref": "#/y", "y": 5}\<close>, itself a reference.
\<close>

theorem local_reference_working_copy_witness:
  "visit (Suc (Suc 0)) plain_env defaults (VRef 2)
      (initial_state plain_env None
         [CObj [(''$ref'', VStr ''#/y'')], CObj [(''t'', VNum 1)], CObj [(''x'', VRef 0), (''y'', VRef 1)]]
         ''0cc175b9'')
      2 (KProp ''x'') (VRef 0)
     = Done (False, clear_missing (update
         (initial_state plain_env None
           [CObj [(''$ref'', VStr ''#/y'')], CObj [(''t'', VNum 1)], CObj [(''x'', VRef 0), (''y'', VRef 1)]]
           ''0cc175b9'')
         2 (KProp ''x'') (VRef 1)) ''#/y'')
   \<and> loads (clear_missing (update
         (initial_state plain_env None
           [CObj [(''$ref'', VStr ''#/y'')], CObj [(''t'', VNum 1)], CObj [(''x'', VRef 0), (''y'', VRef 1)]]
           ''0cc175b9'')
         2 (KProp ''x'') (VRef 1)) ''#/y'') = []
   \<and> top_level_ref (getRefSchema (Suc 0) plain_env defaults) (Suc 0) plain_env defaults
        (initial_state plain_env None [CObj [(''$ref'', VStr ''#/y''), (''y'', VNum 5)]] ''0cc175b9'')
        (VRef 0) ''#/y''
     = Done (VNum 5, clear_missing
        (initial_state plain_env None [CObj [(''$ref'', VStr ''#/y''), (''y'', VNum 5)]] ''0cc175b9'') ''#/y'')"
proof -
  let ?h = "[CObj [(''$ref'', VStr ''#/y'')], CObj [(''t'', VNum 1)], CObj [(''x'', VRef 0), (''y'', VRef 1)]]"
  let ?st = "initial_state plain_env None ?h ''0cc175b9''"
  let ?g = "[CObj [(''$ref'', VStr ''#/y''), (''y'', VNum 5)]]"
  let ?sg = "initial_state plain_env None ?g ''0cc175b9''"
  let ?r = "clear_missing (update ?st 2 (KProp ''x'') (VRef 1)) ''#/y''"
  have hp: "heap ?st = ?h" by (simp add: initial_state_def Let_def)
  have hg: "heap ?sg = ?g" by (simp add: initial_state_def Let_def)
  have hi: "history ?st = []" by (simp add: initial_state_def Let_def)
  have gi: "history ?sg = []" by (simp add: initial_state_def Let_def)
  have li: "loads ?st = []" by (simp add: initial_state_def Let_def)
  have 0: "loaders defaults Local = None" by (simp add: defaults_def)
  have 1: "getRefType ''#/y'' = Local" by code_simp
  have 2: "ref_string (heap ?st) (VRef 0) = Some ''#/y''" unfolding hp by code_simp
  have 3: "''#/y'' \<noteq> ''#''" by simp
  have 4: "toLowerCase plain_env (current ?st @ '':'' @ ''#/y'') \<notin> set (history ?st)"
    unfolding hi by simp
  have 5: "getRefPathValue (heap ?st) (VRef 2) ''#/y'' = Some (VRef 1)" unfolding hp by code_simp
  have 6: "\<not> removeIds defaults" by (simp add: defaults_def)
  have 7: "\<not> mergeAdditionalProperties defaults" by (simp add: defaults_def)
  have 8: "getRefPathValue (heap ?sg) (VRef 0) ''#/y'' = Some (VNum 5)" unfolding hg by code_simp
  have 9: "prepare_value (Suc 0) defaults ?sg (VRef 0) (VNum 5) = Done (VNum 5, ?sg)"
    using 6 7 by (simp add: prepare_value_def strip_id_def merge_siblings_def)
  note T = local_reference_working_copy[OF 0 1, where n = 0 and ev = plain_env and st = ?st
      and node = "VRef 0" and schema = "VRef 2" and parent = 2 and k = "KProp ''x''"
      and newValue = "VRef 1" and b = False and st' = ?r]
  note G = local_reference_working_copy[OF 0 1, where n = 0 and ev = plain_env and st = ?sg
      and schema = "VRef 0"]
  from T[THEN conjunct2, THEN conjunct1, rule_format, OF 2 3 4 5 6 7]
  have A: "visit (Suc (Suc 0)) plain_env defaults (VRef 2) ?st 2 (KProp ''x'') (VRef 0) = Done (False, ?r)" .
  from T[THEN conjunct2, THEN conjunct2, THEN conjunct1, rule_format, OF 2 A] li
  have B: "loads ?r = []" by simp
  from G[THEN conjunct2, THEN conjunct2, THEN conjunct2, THEN conjunct1]
  have C: "top_level_ref (getRefSchema (Suc 0) plain_env defaults) (Suc 0) plain_env defaults ?sg (VRef 0) ''#/y''
     = Done (VNum 5, clear_missing ?sg ''#/y'')"
    by (simp add: gi 8 9)
  from A B C show ?thesis by simp
qed

text \<open>
  Claim C4 as stated fails twice. In \<open>{"a": {"$ref": "#/b"}, "b": {"t": 1}, "c": {"$ref": "#/a"}}\<close>
  the value at \<open>/a\<close> before any substitution is the reference to \<open>#/b\<close>, yet \<open>c\<close> receives
  \<open>{"t": 1}\<close>, the value at \<open>/a\<close> after \<open>a\<close> was substituted. And with a loader registered
  under the type of local references, that loader is invoked for \<open>#/y\<close>.
\<close>

theorem local_reference_working_copy_counterexample:
  "stringify
      (snd (alloc (JObj [(''a'', obj_ref ''#/b''), (''b'', JObj [(''t'', JNum 1)]), (''c'', obj_ref ''#/a'')]) []))
      (the (getRefPathValue
         (snd (alloc (JObj [(''a'', obj_ref ''#/b''), (''b'', JObj [(''t'', JNum 1)]), (''c'', obj_ref ''#/a'')]) []))
         (fst (alloc (JObj [(''a'', obj_ref ''#/b''), (''b'', JObj [(''t'', JNum 1)]), (''c'', obj_ref ''#/a'')]) []))
         ''#/a''))
     = Some (obj_ref ''#/b'')
   \<and> result_tree (deref_tree 12 plain_env defaults
        (JObj [(''a'', obj_ref ''#/b''), (''b'', JObj [(''t'', JNum 1)]), (''c'', obj_ref ''#/a'')]))
     = Done (Some (JObj [(''a'', JObj [(''t'', JNum 1)]), (''b'', JObj [(''t'', JNum 1)]),
                         (''c'', JObj [(''t'', JNum 1)])]))
   \<and> map_option loads (final_state (deref_tree 12 plain_env
        (defaults\<lparr>loaders := (\<lambda>t. case t of Local \<Rightarrow> Some (\<lambda>r b. None) | File \<Rightarrow> None)\<rparr>)
        (JObj [(''x'', obj_ref ''#/y''), (''y'', JObj [(''t'', JNum 1)])])))
     = Some [(''#/y'', ''/work'')]"
  by code_simp

section \<open>The static check\<close>

lemma startsWith_prefix: "startsWith s p \<longleftrightarrow> prefix p s"
  by (induction s p rule: startsWith.induct) auto

lemma selfRef_iff:
  "selfRef e \<longleftrightarrow>
     (snd e = ''#'' \<or> fst e = drop 2 (snd e)
      \<or> (drop 2 (snd e) \<noteq> [] \<and> prefix (drop 2 (snd e)) (fst e))
      \<or> (fst e \<noteq> [] \<and> prefix (fst e) (drop 2 (snd e))))"
  by (simp add: selfRef_def Let_def substring2_def startsWith_prefix)

lemma derefSchema_static_error:
  assumes "collect_locals n (heap st) schema = Some locals" and "check_edges locals = Some e"
    and "\<not> removeCircular opts"
  shows "derefSchema (Suc n) ev opts st schema = Done (VErr e, st)"
  using assms by (simp add: derefSchema_Suc derefSchema_body_def checkLocalCircular_def)

lemma deref_static_error:
  assumes "stringify h schema = Some str" and "structuredClone h schema = Some (b, h')"
    and "collect_locals n h' b = Some locals" and "check_edges locals = Some e"
    and "\<not> removeCircular opts"
  shows "deref (Suc n) ev opts bf h schema = Done (VErr e, initial_state ev bf h' (md5 ev str))"
proof -
  have "heap (initial_state ev bf h' (md5 ev str)) = h'"
    by (simp add: initial_state_def Let_def)
  with assms(3-5) have "derefSchema (Suc n) ev opts (initial_state ev bf h' (md5 ev str)) b
      = Done (VErr e, initial_state ev bf h' (md5 ev str))"
    by (intro derefSchema_static_error[where locals = locals]) simp_all
  with assms(1,2) show ?thesis
    by (simp add: deref_def is_error_def)
qed

text \<open>
  Claim C6, as the code has it. The pre-check flags a self-reference exactly when some
  collected edge, with \<open>to\<close> read without its first two characters, satisfies one of: the
  reference value is \<open>#\<close>; \<open>from\<close> equals \<open>to\<close>; \<open>to\<close> is non-empty and a prefix of \<open>from\<close>;
  \<open>from\<close> is non-empty and a prefix of \<open>to\<close>. When the edges of the copied document are
  flagged and \<open>removeCircular\<close> is not set, \<open>deref\<close> returns the self-reference error.
\<close>

theorem static_self_reference:
  "(hasSelfRefs locals \<longleftrightarrow>
      (\<exists>e \<in> set locals.
         snd e = ''#'' \<or> fst e = drop 2 (snd e)
         \<or> (drop 2 (snd e) \<noteq> [] \<and> prefix (drop 2 (snd e)) (fst e))
         \<or> (fst e \<noteq> [] \<and> prefix (fst e) (drop 2 (snd e)))))
   \<and> (stringify h schema = Some str \<longrightarrow> structuredClone h schema = Some (b, h') \<longrightarrow>
        collect_locals n h' b = Some locals \<longrightarrow> hasSelfRefs locals \<longrightarrow> \<not> removeCircular opts \<longrightarrow>
        deref (Suc n) ev opts bf h schema
          = Done (VErr SelfReference, initial_state ev bf h' (md5 ev str)))"
proof (intro conjI impI)
  show "hasSelfRefs locals \<longleftrightarrow>
      (\<exists>e \<in> set locals.
         snd e = ''#'' \<or> fst e = drop 2 (snd e)
         \<or> (drop 2 (snd e) \<noteq> [] \<and> prefix (drop 2 (snd e)) (fst e))
         \<or> (fst e \<noteq> [] \<and> prefix (fst e) (drop 2 (snd e))))"
    unfolding hasSelfRefs_def list_ex_iff using selfRef_iff by blast
next
  assume a: "stringify h schema = Some str" "structuredClone h schema = Some (b, h')"
    "collect_locals n h' b = Some locals" "hasSelfRefs locals" "\<not> removeCircular opts"
  from a(4) have "locals \<noteq> []" by (auto simp: hasSelfRefs_def)
  with a(4) have "check_edges locals = Some SelfReference" by (simp add: check_edges_def)
  with a show "deref (Suc n) ev opts bf h schema
          = Done (VErr SelfReference, initial_state ev bf h' (md5 ev str))"
    by (intro deref_static_error) simp_all
qed

text \<open>The theorem at the document \<open>{"a": {"b": {"$ref": "#/a"}}}\<close> with the default options.\<close>

theorem static_self_reference_witness:
  "hasSelfRefs [(''a/b'', ''#/a'')]
   \<and> deref (Suc 7) plain_env defaults None (snd (alloc nested_self [])) (fst (alloc nested_self []))
       = Done (VErr SelfReference,
               initial_state plain_env None
                 [CObj [(''$ref'', VStr ''#/a'')], CObj [(''b'', VRef 0)], CObj [(''a'', VRef 1)],
                  CObj [(''a'', VRef 4)], CObj [(''b'', VRef 5)], CObj [(''$ref'', VStr ''#/a'')]]
                 (md5 plain_env nested_self))"
proof -
  let ?h = "snd (alloc nested_self [])" and ?v = "fst (alloc nested_self [])"
  let ?h' = "[CObj [(''$ref'', VStr ''#/a'')], CObj [(''b'', VRef 0)], CObj [(''a'', VRef 1)],
                  CObj [(''a'', VRef 4)], CObj [(''b'', VRef 5)], CObj [(''$ref'', VStr ''#/a'')]]"
  have 1: "stringify ?h ?v = Some nested_self" by code_simp
  have 2: "structuredClone ?h ?v = Some (VRef 3, ?h')" by code_simp
  have 3: "collect_locals 7 ?h' (VRef 3) = Some [(''a/b'', ''#/a'')]" by code_simp
  have 4: "hasSelfRefs [(''a/b'', ''#/a'')]" by code_simp
  have 5: "\<not> removeCircular defaults" by (simp add: defaults_def)
  from static_self_reference[of "[(''a/b'', ''#/a'')]" ?h ?v nested_self "VRef 3" ?h' 7 defaults plain_env None]
    1 2 3 4 5 show ?thesis by simp
qed

text \<open>
  Claim C6 as stated fails at \<open>{"a": {"$ref": "#/"}}\<close>: the destination path is empty, hence a
  prefix of \<open>a\<close>, yet the edge is not flagged and the call returns no error.
\<close>

theorem static_self_reference_counterexample:
  "prefix (drop 2 ''#/'') ''a'' \<and> \<not> hasSelfRefs [(''a'', ''#/'')]
   \<and> returns_document (deref_tree 8 plain_env defaults (JObj [(''a'', obj_ref ''#/'')]))"
  by code_simp

section \<open>Merging the sibling properties\<close>
























section \<open>The history of destinations\<close>








end
